theory Spec2Isabelle
  imports Main
begin

section \<open>The Dashboard page of qrupay (src/pages/Dashboard.tsx)\<close>

text \<open>
  The page is a React function component. Its three \<open>useState\<close> cells are the fields of
  a record, every call that leaves the component (navigation, the backend query, the QR
  encoder, the console, the toast) is an entry appended to a trace, and the asynchronous
  callbacks are state transformers. What the backend and the encoder answer is not decided
  by the page, so both are parameters (the record \<open>env\<close>). The JSX is a tree of nodes;
  \<open>className\<close> and \<open>size\<close> attributes are styling and are left out of the tree.
\<close>

subsection \<open>Data\<close>

text \<open>The interface \<open>MedicalProfile\<close>; a field of type \<open>string | null\<close> is an option.\<close>

record MedicalProfile =
  id' :: string
  blood_group :: "string option"
  allergies :: "string option"
  chronic_conditions :: "string option"
  medications :: "string option"
  emergency_contact_name :: string
  emergency_contact_phone :: string
  emergency_contact_relation :: "string option"
  additional_notes :: "string option"
  qr_code_url :: "string option"

text \<open>The session's user, as far as the page reads it: \<open>user.id\<close> and \<open>user.email\<close>.\<close>

record user =
  user_id :: string
  email :: "string option"

text \<open>The error object of a backend answer, and what a \<open>catch\<close> clause can receive.\<close>

record PostgrestError =
  code :: string
  message :: string

datatype js_exception = Postgrest PostgrestError | OtherError string

text \<open>The object \<open>{ data, error }\<close> that the awaited query resolves to.\<close>

record response =
  data :: "MedicalProfile option"
  error :: "PostgrestError option"

text \<open>The options object handed to \<open>QRCode.toDataURL\<close>.\<close>

record qr_color =
  dark :: string
  light :: string

record qr_options =
  width :: nat
  margin :: nat
  color :: qr_color

record toast_args =
  title :: string
  description :: string
  variant :: string

text \<open>Everything the component does to the outside, in the order it does it.\<close>

datatype effect =
    Navigate string
  | SignOut
  | Query string string
  | ToDataURL string qr_options
  | ConsoleError string js_exception
  | Toast toast_args

text \<open>
  The outside world of one mount: \<open>window.location.origin\<close>, the answer of the backend to
  the query for a user id (\<open>Inl\<close>: the awaited promise rejects), the answer of the encoder
  (\<open>Inl\<close>: it throws or rejects), and whether \<open>signOut\<close> rejects.
\<close>

record env =
  origin :: string
  backend :: "string \<Rightarrow> js_exception + response"
  toDataURL :: "string \<Rightarrow> qr_options \<Rightarrow> js_exception + string"
  signOut :: "js_exception option"

text \<open>The three state cells of the component, and the trace of its effects.\<close>

record dashboard =
  medicalProfile :: "MedicalProfile option"
  qrCodeDataUrl :: string
  loading :: bool
  trace :: "effect list"

definition initial :: dashboard where
  "initial = \<lparr>medicalProfile = None, qrCodeDataUrl = [], loading = True, trace = []\<rparr>"

subsection \<open>State setters and effects\<close>

definition emit :: "effect \<Rightarrow> dashboard \<Rightarrow> dashboard" where
  "emit e st = st\<lparr>trace := trace st @ [e]\<rparr>"

definition setMedicalProfile :: "MedicalProfile \<Rightarrow> dashboard \<Rightarrow> dashboard" where
  "setMedicalProfile d st = st\<lparr>medicalProfile := Some d\<rparr>"

definition setQrCodeDataUrl :: "string \<Rightarrow> dashboard \<Rightarrow> dashboard" where
  "setQrCodeDataUrl s st = st\<lparr>qrCodeDataUrl := s\<rparr>"

definition setLoading :: "bool \<Rightarrow> dashboard \<Rightarrow> dashboard" where
  "setLoading b st = st\<lparr>loading := b\<rparr>"

text \<open>JavaScript truthiness of a string: every string but the empty one.\<close>

definition truthy :: "string \<Rightarrow> bool" where
  "truthy s = (s \<noteq> [])"

subsection \<open>generateQRCode (lines 72-87)\<close>

text \<open>The template literal of line 74.\<close>

definition emergencyUrl :: "string \<Rightarrow> string \<Rightarrow> string" where
  "emergencyUrl org profileId = org @ ''/emergency/'' @ profileId"

text \<open>The object literal of lines 75-82.\<close>

definition toDataURL_options :: qr_options where
  "toDataURL_options =
     \<lparr>width = 256, margin = 2, color = \<lparr>dark = ''#dc2626'', light = ''#ffffff''\<rparr>\<rparr>"

definition generateQRCode :: "env \<Rightarrow> string \<Rightarrow> dashboard \<Rightarrow> dashboard" where
  "generateQRCode e profileId st =
     (let url = emergencyUrl (origin e) profileId;
          st1 = emit (ToDataURL url toDataURL_options) st
      in case toDataURL e url toDataURL_options of
           Inr qrDataUrl \<Rightarrow> setQrCodeDataUrl qrDataUrl st1
         | Inl err \<Rightarrow> emit (ConsoleError ''Error generating QR code:'' err) st1)"

subsection \<open>fetchMedicalProfile (lines 42-70)\<close>

text \<open>
  The condition of line 50, \<open>error && error.code !== 'PGRST116'\<close>: the error to throw, if
  any.
\<close>

definition thrown_error :: "response \<Rightarrow> PostgrestError option" where
  "thrown_error r =
     (case error r of
        None \<Rightarrow> None
      | Some err \<Rightarrow> if code err \<noteq> ''PGRST116'' then Some err else None)"

text \<open>
  The \<open>try\<close> block after the query has been issued: \<open>Inl\<close> is an exception on its way to
  the \<open>catch\<close> clause. Both exceptions arise before the block has set any state.
  \<open>generateQRCode\<close> is an \<open>async\<close> function with a \<open>try\<close> of its own around its whole
  body, so no exception comes out of the call of line 57.
\<close>

definition fetch_try :: "env \<Rightarrow> user \<Rightarrow> dashboard \<Rightarrow> js_exception + dashboard" where
  "fetch_try e u st =
     (case backend e (user_id u) of
        Inl ex \<Rightarrow> Inl ex
      | Inr r \<Rightarrow>
          (case thrown_error r of
             Some err \<Rightarrow> Inl (Postgrest err)
           | None \<Rightarrow>
               (case data r of
                  None \<Rightarrow> Inr st
                | Some d \<Rightarrow>
                    (let st1 = setMedicalProfile d st
                     in if truthy (id' d) then Inr (generateQRCode e (id' d) st1)
                        else Inr st1))))"

text \<open>The \<open>catch\<close> clause of lines 60-66.\<close>

definition fetch_catch :: "js_exception \<Rightarrow> dashboard \<Rightarrow> dashboard" where
  "fetch_catch ex st =
     emit (Toast \<lparr>title = ''Error'', description = ''Failed to load medical profile'',
                  variant = ''destructive''\<rparr>)
       (emit (ConsoleError ''Error fetching medical profile:'' ex) st)"

definition fetchMedicalProfile :: "env \<Rightarrow> user \<Rightarrow> dashboard \<Rightarrow> dashboard" where
  "fetchMedicalProfile e u st =
     (let st0 = emit (Query ''medical_profiles'' (user_id u)) st
      in setLoading False
           (case fetch_try e u st0 of
              Inr st1 \<Rightarrow> st1
            | Inl ex \<Rightarrow> fetch_catch ex st0))"

subsection \<open>The effect run on mount (lines 34-40)\<close>

definition on_mount :: "env \<Rightarrow> user option \<Rightarrow> dashboard \<Rightarrow> dashboard" where
  "on_mount e usr st =
     (case usr of
        None \<Rightarrow> emit (Navigate ''/auth'') st
      | Some u \<Rightarrow> fetchMedicalProfile e u st)"

subsection \<open>The rendered tree (lines 98-250)\<close>

text \<open>What a button does when clicked: the two named handlers, or an inline \<open>navigate\<close>.\<close>

datatype handler = HandleSignOut | HandleGoBack | NavigateTo string

text \<open>
  A node is a text, an icon, an element or a component of the UI kit with its children, a
  button with its handler, its variant and its children, or one of the two child components
  of the application with their props.
\<close>

datatype node =
    Text string
  | Icon string
  | Element string "node list"
  | Button handler string "node list"
  | QRCodeGenerator string string string
  | MedicalProfileSummary MedicalProfile

text \<open>\<open>handleSignOut\<close> (lines 89-92), \<open>handleGoBack\<close> (lines 94-96), inline handlers.\<close>

definition click :: "env \<Rightarrow> handler \<Rightarrow> dashboard \<Rightarrow> dashboard" where
  "click e h st =
     (case h of
        HandleSignOut \<Rightarrow>
          (case signOut e of
             None \<Rightarrow> emit (Navigate ''/'') (emit SignOut st)
           | Some ex \<Rightarrow> emit SignOut st)
      | HandleGoBack \<Rightarrow> emit (Navigate ''/'') st
      | NavigateTo path \<Rightarrow> emit (Navigate path) st)"

definition loading_view :: node where
  "loading_view = Element ''div'' [Element ''div'' [Text ''Loading...'']]"

definition header_view :: node where
  "header_view =
     Element ''header''
       [Element ''div''
          [Element ''div''
             [Element ''div''
                [Icon ''Heart'',
                 Element ''h1'' [Element ''span'' [Text ''QR''], Text ''upay Dashboard'']],
              Element ''div''
                [Button HandleSignOut ''outline'' [Icon ''LogOut'', Text ''Sign Out''],
                 Button HandleGoBack ''ghost'' [Icon ''ArrowLeft'', Text ''Home'']]]]]"

text \<open>
  A string in braces, \<open>{s}\<close>, as the children of an element: React makes a text node of
  it unless the string is empty.
\<close>

definition text_child :: "string \<Rightarrow> node list" where
  "text_child s = (if s = [] then [] else [Text s])"

text \<open>Lines 147-150; \<open>{user?.email}\<close> renders nothing when there is no user or no email.\<close>

definition email_view :: "user option \<Rightarrow> node" where
  "email_view usr =
     Element ''div''
       [Element ''p'' [Text ''Email''],
        Element ''p''
          (case usr of
             None \<Rightarrow> []
           | Some u \<Rightarrow> (case email u of None \<Rightarrow> [] | Some a \<Rightarrow> text_child a))]"

text \<open>Lines 154-158.\<close>

definition emergency_contact_view :: "MedicalProfile \<Rightarrow> node" where
  "emergency_contact_view p =
     Element ''div''
       [Element ''p'' [Text ''Emergency Contact''],
        Element ''p'' (text_child (emergency_contact_name p)),
        Element ''p'' (text_child (emergency_contact_phone p))]"

text \<open>
  Lines 160-165, \<open>{medicalProfile.blood_group && (...)}\<close>: \<open>null\<close> and the empty string
  are falsy and render nothing.
\<close>

definition blood_group_view :: "MedicalProfile \<Rightarrow> node list" where
  "blood_group_view p =
     (case blood_group p of
        None \<Rightarrow> []
      | Some b \<Rightarrow>
          if truthy b
          then [Element ''div'' [Element ''p'' [Text ''Blood Group''], Element ''p'' [Text b]]]
          else [])"

text \<open>Lines 168-176.\<close>

definition no_profile_view :: node where
  "no_profile_view =
     Element ''div''
       [Element ''p'' [Text ''No medical profile found''],
        Button (NavigateTo ''/profile/edit'') ''medical'' [Text ''Create Medical Profile'']]"

text \<open>Lines 139-179.\<close>

definition profile_overview :: "user option \<Rightarrow> dashboard \<Rightarrow> node" where
  "profile_overview usr st =
     Element ''Card''
       [Element ''CardHeader''
          [Element ''CardTitle'' [Icon ''User'', Text ''Profile Overview'']],
        Element ''CardContent''
          [email_view usr,
           (case medicalProfile st of
              Some p \<Rightarrow> Element ''div'' (emergency_contact_view p # blood_group_view p)
            | None \<Rightarrow> no_profile_view)]]"

text \<open>Lines 182-202, \<open>medicalProfile?.id ? ... : ...\<close>.\<close>

definition qr_placeholder :: node where
  "qr_placeholder =
     Element ''Card''
       [Element ''CardHeader''
          [Element ''CardTitle'' [Icon ''QrCode'', Text ''Emergency QR Code'']],
        Element ''CardContent''
          [Element ''p''
             [Text ''Create a medical profile to generate your emergency QR code'']]]"

definition qr_view :: "dashboard \<Rightarrow> node" where
  "qr_view st =
     (case medicalProfile st of
        None \<Rightarrow> qr_placeholder
      | Some p \<Rightarrow>
          if truthy (id' p)
          then QRCodeGenerator (id' p) (emergency_contact_name p) (emergency_contact_phone p)
          else qr_placeholder)"

text \<open>Lines 206-214, \<open>{medicalProfile && (...)}\<close>.\<close>

definition summary_view :: "dashboard \<Rightarrow> node list" where
  "summary_view st =
     (case medicalProfile st of
        None \<Rightarrow> []
      | Some p \<Rightarrow>
          [Element ''div''
             [Element ''h2'' [Icon ''Heart'', Text ''Medical Profile Summary''],
              MedicalProfileSummary p]])"

text \<open>
  Lines 217-247. The label of the last button starts with the pill emoji, written here as
  its four UTF-8 bytes.
\<close>

definition actions_view :: "dashboard \<Rightarrow> node" where
  "actions_view st =
     Element ''div''
       ([Button (NavigateTo ''/profile/edit'') ''medical''
           [Icon ''FileText'',
            Text (case medicalProfile st of
                    Some p \<Rightarrow> ''Edit Medical Profile''
                  | None \<Rightarrow> ''Create Medical Profile'')]]
        @ (case medicalProfile st of
             None \<Rightarrow> []
           | Some p \<Rightarrow>
               [Button (NavigateTo (''/emergency/'' @ id' p)) ''outline''
                  [Text ''Preview Emergency View'']])
        @ [Button (NavigateTo ''/medications'') ''secondary''
             [Text ([CHR 0xF0, CHR 0x9F, CHR 0x92, CHR 0x8A] @ '' Medication Reminders'')]])"

definition render :: "user option \<Rightarrow> dashboard \<Rightarrow> node" where
  "render usr st =
     (if loading st then loading_view
      else Element ''div''
             [header_view,
              Element ''main''
                ([Element ''div'' [profile_overview usr st, qr_view st]]
                 @ summary_view st
                 @ [actions_view st])])"

subsection \<open>Reading a rendered tree and a trace\<close>

fun texts :: "node \<Rightarrow> string list" where
  "texts (Text s) = [s]"
| "texts (Icon n) = []"
| "texts (Element t cs) = concat (map texts cs)"
| "texts (Button h v cs) = concat (map texts cs)"
| "texts (QRCodeGenerator i n ph) = []"
| "texts (MedicalProfileSummary p) = []"

text \<open>The buttons of a tree, each with its handler and the texts of its label.\<close>

fun buttons :: "node \<Rightarrow> (handler \<times> string list) list" where
  "buttons (Text s) = []"
| "buttons (Icon n) = []"
| "buttons (Element t cs) = concat (map buttons cs)"
| "buttons (Button h v cs) = (h, concat (map texts cs)) # concat (map buttons cs)"
| "buttons (QRCodeGenerator i n ph) = []"
| "buttons (MedicalProfileSummary p) = []"

text \<open>The application's child components in a tree.\<close>

fun qr_generators :: "node \<Rightarrow> (string \<times> string \<times> string) list" where
  "qr_generators (Text s) = []"
| "qr_generators (Icon n) = []"
| "qr_generators (Element t cs) = concat (map qr_generators cs)"
| "qr_generators (Button h v cs) = concat (map qr_generators cs)"
| "qr_generators (QRCodeGenerator i n ph) = [(i, n, ph)]"
| "qr_generators (MedicalProfileSummary p) = []"

fun summaries :: "node \<Rightarrow> MedicalProfile list" where
  "summaries (Text s) = []"
| "summaries (Icon n) = []"
| "summaries (Element t cs) = concat (map summaries cs)"
| "summaries (Button h v cs) = concat (map summaries cs)"
| "summaries (QRCodeGenerator i n ph) = []"
| "summaries (MedicalProfileSummary p) = [p]"

fun toasts :: "effect list \<Rightarrow> toast_args list" where
  "toasts [] = []"
| "toasts (Toast t # es) = t # toasts es"
| "toasts (e # es) = toasts es"

fun encoder_calls :: "effect list \<Rightarrow> (string \<times> qr_options) list" where
  "encoder_calls [] = []"
| "encoder_calls (ToDataURL u opts # es) = (u, opts) # encoder_calls es"
| "encoder_calls (e # es) = encoder_calls es"

fun queries :: "effect list \<Rightarrow> (string \<times> string) list" where
  "queries [] = []"
| "queries (Query t u # es) = (t, u) # queries es"
| "queries (e # es) = queries es"

fun console_errors :: "effect list \<Rightarrow> (string \<times> js_exception) list" where
  "console_errors [] = []"
| "console_errors (ConsoleError m ex # es) = (m, ex) # console_errors es"
| "console_errors (e # es) = console_errors es"

fun navigations :: "effect list \<Rightarrow> string list" where
  "navigations [] = []"
| "navigations (Navigate p # es) = p # navigations es"
| "navigations (e # es) = navigations es"

text \<open>The buttons of a tree that lead to the profile form, \<open>navigate('/profile/edit')\<close>.\<close>

definition create_profile_actions :: "node \<Rightarrow> (handler \<times> string list) list" where
  "create_profile_actions n =
     filter (\<lambda>b. fst b = NavigateTo ''/profile/edit'') (buttons n)"

subsection \<open>What can happen after the mount\<close>

text \<open>
  After the effect has run, the only events left are clicks, and only on buttons that are
  on the screen. \<open>reachable e usr s t\<close>: from state \<open>s\<close> the component can get to \<open>t\<close>.
\<close>

inductive reachable :: "env \<Rightarrow> user option \<Rightarrow> dashboard \<Rightarrow> dashboard \<Rightarrow> bool"
  for e :: env and usr :: "user option" and s :: dashboard where
  start: "reachable e usr s s"
| clicked: "reachable e usr s t \<Longrightarrow> (h, lbl) \<in> set (buttons (render usr t))
            \<Longrightarrow> reachable e usr s (click e h t)"

subsection \<open>Concrete inputs\<close>

definition example_profile :: MedicalProfile where
  "example_profile =
     \<lparr>id' = ''abc123'', blood_group = None, allergies = None, chronic_conditions = None,
      medications = None, emergency_contact_name = ''Asha'',
      emergency_contact_phone = ''555-0100'', emergency_contact_relation = None,
      additional_notes = None, qr_code_url = None\<rparr>"

definition example_profile_full :: MedicalProfile where
  "example_profile_full =
     \<lparr>id' = ''abc123'', blood_group = Some ''O+'', allergies = Some ''penicillin'',
      chronic_conditions = Some ''asthma'', medications = Some ''salbutamol'',
      emergency_contact_name = ''Asha'', emergency_contact_phone = ''555-0100'',
      emergency_contact_relation = Some ''sister'', additional_notes = Some ''none'',
      qr_code_url = Some ''https://cdn.example/qr.png''\<rparr>"

definition example_user :: user where
  "example_user = \<lparr>user_id = ''u-1'', email = Some ''asha@example.org''\<rparr>"

text \<open>An environment whose backend and encoder give the two answers passed in.\<close>

definition example_env :: "(js_exception + response) \<Rightarrow> (js_exception + string) \<Rightarrow> env" where
  "example_env ans enc =
     \<lparr>origin = ''https://qrupay.example'', backend = (\<lambda>uid. ans),
      toDataURL = (\<lambda>url opts. enc), signOut = None\<rparr>"

definition no_rows :: "js_exception + response" where
  "no_rows = Inr \<lparr>data = None, error = Some \<lparr>code = ''PGRST116'', message = ''no rows''\<rparr>\<rparr>"

definition server_error :: "js_exception + response" where
  "server_error = Inr \<lparr>data = None, error = Some \<lparr>code = ''57014'', message = ''timeout''\<rparr>\<rparr>"

definition found :: "MedicalProfile \<Rightarrow> js_exception + response" where
  "found p = Inr \<lparr>data = Some p, error = None\<rparr>"

definition png :: "js_exception + string" where
  "png = Inr ''data:image/png;base64,iVBORw0KGgo=''"


text \<open>
  The mount of a fresh component for a user whose profile \<open>p\<close> the backend returns.
\<close>

definition mount_with_profile :: "env \<Rightarrow> user \<Rightarrow> MedicalProfile \<Rightarrow> dashboard" where
  "mount_with_profile e u p =
     on_mount (e\<lparr>backend := \<lambda>uid. Inr \<lparr>data = Some p, error = None\<rparr>\<rparr>) (Some u) initial"

section \<open>Properties\<close>

subsection \<open>Traces and state cells\<close>

lemma emit_fields:
  "medicalProfile (emit e st) = medicalProfile st"
  "qrCodeDataUrl (emit e st) = qrCodeDataUrl st"
  "loading (emit e st) = loading st"
  "trace (emit e st) = trace st @ [e]"
  by (simp_all add: emit_def)

lemma toasts_append: "toasts (xs @ ys) = toasts xs @ toasts ys"
  by (induction xs rule: toasts.induct) simp_all

lemma encoder_calls_append: "encoder_calls (xs @ ys) = encoder_calls xs @ encoder_calls ys"
  by (induction xs rule: encoder_calls.induct) simp_all

lemma queries_append: "queries (xs @ ys) = queries xs @ queries ys"
  by (induction xs rule: queries.induct) simp_all

lemma console_errors_append:
  "console_errors (xs @ ys) = console_errors xs @ console_errors ys"
  by (induction xs rule: console_errors.induct) simp_all

lemma navigations_append: "navigations (xs @ ys) = navigations xs @ navigations ys"
  by (induction xs rule: navigations.induct) simp_all

lemmas trace_append =
  toasts_append encoder_calls_append queries_append console_errors_append navigations_append

lemma generateQRCode_trace:
  "trace (generateQRCode e pid st) =
     trace st @ ToDataURL (emergencyUrl (origin e) pid) toDataURL_options #
       (case toDataURL e (emergencyUrl (origin e) pid) toDataURL_options of
          Inr s \<Rightarrow> []
        | Inl ex \<Rightarrow> [ConsoleError ''Error generating QR code:'' ex])"
  by (simp add: generateQRCode_def Let_def emit_def setQrCodeDataUrl_def split: sum.splits)

lemma generateQRCode_fields:
  "medicalProfile (generateQRCode e pid st) = medicalProfile st"
  "loading (generateQRCode e pid st) = loading st"
  "qrCodeDataUrl (generateQRCode e pid st) =
     (case toDataURL e (emergencyUrl (origin e) pid) toDataURL_options of
        Inr s \<Rightarrow> s
      | Inl ex \<Rightarrow> qrCodeDataUrl st)"
  by (simp_all add: generateQRCode_def Let_def emit_def setQrCodeDataUrl_def
      split: sum.splits)

text \<open>
  The encoder's promise settles after the \<open>finally\<close> block of \<open>fetchMedicalProfile\<close> has
  run. The two touch different cells, so the order does not show in the result, and the
  model runs \<open>generateQRCode\<close> to its end at the place of its call.
\<close>

lemma setLoading_generateQRCode:
  "setLoading b (generateQRCode e pid st) = generateQRCode e pid (setLoading b st)"
  by (simp add: generateQRCode_def Let_def emit_def setQrCodeDataUrl_def setLoading_def
      split: sum.splits)

text \<open>The page never reads \<open>qrCodeDataUrl\<close> or the trace when it renders.\<close>

lemma render_cong:
  "medicalProfile s = medicalProfile t \<Longrightarrow> loading s = loading t
   \<Longrightarrow> render usr s = render usr t"
  by (simp add: render_def profile_overview_def qr_view_def summary_view_def
      actions_view_def)

lemma fetch_found:
  assumes "backend e (user_id u) = Inr r" "thrown_error r = None" "data r = Some p"
  shows "fetchMedicalProfile e u st =
           setLoading False
             (if truthy (id' p)
              then generateQRCode e (id' p)
                     (setMedicalProfile p (emit (Query ''medical_profiles'' (user_id u)) st))
              else setMedicalProfile p (emit (Query ''medical_profiles'' (user_id u)) st))"
  using assms by (simp add: fetchMedicalProfile_def fetch_try_def Let_def)

lemma fetch_absent:
  assumes "backend e (user_id u) = Inr r" "thrown_error r = None" "data r = None"
  shows "fetchMedicalProfile e u st =
           setLoading False (emit (Query ''medical_profiles'' (user_id u)) st)"
  using assms by (simp add: fetchMedicalProfile_def fetch_try_def Let_def)

lemma fetch_failed:
  assumes "fetch_try e u (emit (Query ''medical_profiles'' (user_id u)) st) = Inl ex"
  shows "fetchMedicalProfile e u st =
           setLoading False
             (fetch_catch ex (emit (Query ''medical_profiles'' (user_id u)) st))"
  using assms by (simp add: fetchMedicalProfile_def Let_def)

lemma setter_fields:
  "medicalProfile (setLoading b st) = medicalProfile st"
  "qrCodeDataUrl (setLoading b st) = qrCodeDataUrl st"
  "loading (setLoading b st) = b"
  "trace (setLoading b st) = trace st"
  "medicalProfile (setMedicalProfile p st) = Some p"
  "qrCodeDataUrl (setMedicalProfile p st) = qrCodeDataUrl st"
  "loading (setMedicalProfile p st) = loading st"
  "trace (setMedicalProfile p st) = trace st"
  by (simp_all add: setLoading_def setMedicalProfile_def)

lemma fetch_catch_fields:
  "medicalProfile (fetch_catch ex st) = medicalProfile st"
  "qrCodeDataUrl (fetch_catch ex st) = qrCodeDataUrl st"
  "loading (fetch_catch ex st) = loading st"
  "trace (fetch_catch ex st) =
     trace st @ [ConsoleError ''Error fetching medical profile:'' ex,
                 Toast \<lparr>title = ''Error'', description = ''Failed to load medical profile'',
                        variant = ''destructive''\<rparr>]"
  by (simp_all add: fetch_catch_def emit_fields)


lemma fetch_failure_cases:
  assumes "backend e (user_id u) = Inl ex \<or>
           (\<exists>r err. backend e (user_id u) = Inr r \<and> error r = Some err \<and>
              code err \<noteq> ''PGRST116'' \<and> ex = Postgrest err)"
  shows "fetch_try e u st = Inl ex"
  using assms by (auto simp: fetch_try_def thrown_error_def)

lemma fetch_failure_result:
  assumes "backend e (user_id u) = Inl ex \<or>
           (\<exists>r err. backend e (user_id u) = Inr r \<and> error r = Some err \<and>
              code err \<noteq> ''PGRST116'' \<and> ex = Postgrest err)"
  shows "fetchMedicalProfile e u st =
           st\<lparr>loading := False,
              trace := trace st @ [Query ''medical_profiles'' (user_id u),
                ConsoleError ''Error fetching medical profile:'' ex,
                Toast \<lparr>title = ''Error'', description = ''Failed to load medical profile'',
                       variant = ''destructive''\<rparr>]\<rparr>"
  using fetch_failed [OF fetch_failure_cases [OF assms]]
  by (simp add: fetch_catch_def emit_def setLoading_def)

lemma render_empty:
  "medicalProfile st = None \<Longrightarrow> \<not> loading st \<Longrightarrow>
   render usr st =
     Element ''div''
       [header_view,
        Element ''main''
          [Element ''div''
             [Element ''Card''
                [Element ''CardHeader''
                   [Element ''CardTitle'' [Icon ''User'', Text ''Profile Overview'']],
                 Element ''CardContent'' [email_view usr, no_profile_view]],
              qr_placeholder],
           Element ''div''
             [Button (NavigateTo ''/profile/edit'') ''medical''
                [Icon ''FileText'', Text ''Create Medical Profile''],
              Button (NavigateTo ''/medications'') ''secondary''
                [Text ([CHR 0xF0, CHR 0x9F, CHR 0x92, CHR 0x8A] @ '' Medication Reminders'')]]]]"
  by (simp add: render_def profile_overview_def qr_view_def summary_view_def actions_view_def)

lemma buttons_email_view: "buttons (email_view usr) = []"
  by (auto simp: email_view_def text_child_def split: option.splits)

lemma create_actions_empty:
  "medicalProfile st = None \<Longrightarrow> \<not> loading st \<Longrightarrow>
   create_profile_actions (render usr st) =
     [(NavigateTo ''/profile/edit'', [''Create Medical Profile'']),
      (NavigateTo ''/profile/edit'', [''Create Medical Profile''])]"
  by (simp add: render_empty create_profile_actions_def header_view_def no_profile_view_def
      qr_placeholder_def buttons_email_view)

subsection \<open>The QR payload\<close>

text \<open>
  C1. When the backend returns a profile whose id is not empty, the mount calls the encoder
  exactly once, and the text it is given is the origin, then \<open>/emergency/\<close>, then the id.
  The profile is arbitrary otherwise, so no optional field plays a part. The two runs of the
  witness have the id \<open>abc123\<close>, once with every optional field absent and once with every
  optional field present.
\<close>

theorem qr_payload_is_origin_emergency_id:
  assumes "backend e (user_id u) = Inr \<lparr>data = Some p, error = None\<rparr>"
    and "id' p \<noteq> []"
  shows "encoder_calls (trace (on_mount e (Some u) initial)) =
           [(origin e @ ''/emergency/'' @ id' p, toDataURL_options)]"
proof -
  let ?r = "\<lparr>data = Some p, error = None\<rparr>"
  have "thrown_error ?r = None" by (simp add: thrown_error_def)
  from fetch_found [OF assms(1) this, of p initial] assms(2)
  have "on_mount e (Some u) initial =
          setLoading False (generateQRCode e (id' p)
            (setMedicalProfile p (emit (Query ''medical_profiles'' (user_id u)) initial)))"
    by (simp add: on_mount_def truthy_def)
  then show ?thesis
    by (simp add: setter_fields generateQRCode_trace emit_fields trace_append initial_def
        emergencyUrl_def split: sum.splits)
qed

theorem qr_payload_is_origin_emergency_id_witness:
  "map fst (encoder_calls (trace
      (on_mount (example_env (found example_profile) png) (Some example_user) initial))) =
     [''https://qrupay.example/emergency/abc123'']
   \<and> map fst (encoder_calls (trace
      (on_mount (example_env (found example_profile_full) png) (Some example_user) initial))) =
     [''https://qrupay.example/emergency/abc123'']"
proof -
  have a: "backend (example_env (found example_profile) png) (user_id example_user) =
      Inr \<lparr>data = Some example_profile, error = None\<rparr>"
    and b: "backend (example_env (found example_profile_full) png) (user_id example_user) =
      Inr \<lparr>data = Some example_profile_full, error = None\<rparr>"
    by (simp_all add: example_env_def found_def)
  have i: "id' example_profile \<noteq> []" "id' example_profile_full \<noteq> []"
    by (simp_all add: example_profile_def example_profile_full_def)
  show ?thesis
    using qr_payload_is_origin_emergency_id [OF a i(1)]
      qr_payload_is_origin_emergency_id [OF b i(2)]
    by (simp add: example_env_def example_profile_def example_profile_full_def)
qed

subsection \<open>The answers of the backend\<close>

text \<open>
  C2. When the backend answers with no data and the error code \<open>PGRST116\<close>, nothing is
  thrown in the \<open>try\<close> block; after the mount the profile is still \<open>null\<close>, loading is
  over, the trace holds the query and nothing else (no toast, no console error), and the
  state is the one reached when the backend answers with neither data nor error. It differs
  from the state reached when the query rejects or answers with another error code. The
  screen is the one without a profile: the notice with its button in the overview card and
  the placeholder in place of the QR card.
\<close>

theorem no_rows_is_expected_absence:
  assumes "backend e (user_id u) = Inr \<lparr>data = None, error = Some err\<rparr>"
    and "code err = ''PGRST116''"
  shows "fetch_try e u st = Inr st
     \<and> on_mount e (Some u) initial =
         \<lparr>medicalProfile = None, qrCodeDataUrl = [], loading = False,
          trace = [Query ''medical_profiles'' (user_id u)]\<rparr>
     \<and> toasts (trace (on_mount e (Some u) initial)) = []
     \<and> console_errors (trace (on_mount e (Some u) initial)) = []
     \<and> on_mount e (Some u) initial =
         on_mount (e\<lparr>backend := \<lambda>uid. Inr \<lparr>data = None, error = None\<rparr>\<rparr>) (Some u) initial
     \<and> on_mount e (Some u) initial \<noteq>
         on_mount (e\<lparr>backend := \<lambda>uid. Inl ex\<rparr>) (Some u) initial
     \<and> on_mount e (Some u) initial \<noteq>
         on_mount (e\<lparr>backend := \<lambda>uid. Inr \<lparr>data = None, error = Some (err\<lparr>code := ''57014''\<rparr>)\<rparr>\<rparr>)
           (Some u) initial
     \<and> render (Some u) (on_mount e (Some u) initial) =
         Element ''div''
           [header_view,
            Element ''main''
              [Element ''div''
                 [Element ''Card''
                    [Element ''CardHeader''
                       [Element ''CardTitle'' [Icon ''User'', Text ''Profile Overview'']],
                     Element ''CardContent'' [email_view (Some u), no_profile_view]],
                  qr_placeholder],
               actions_view initial]]"
proof -
  let ?r = "\<lparr>data = None, error = Some err\<rparr>"
  let ?q = "Query ''medical_profiles'' (user_id u)"
  have nt: "thrown_error ?r = None"
    using assms(2) by (simp add: thrown_error_def)
  have tr: "fetch_try e u st = Inr st"
    using assms(1) nt by (simp add: fetch_try_def)
  have run: "on_mount e (Some u) initial = setLoading False (emit ?q initial)"
    using fetch_absent [OF assms(1) nt] by (simp add: on_mount_def)
  then have final: "on_mount e (Some u) initial =
      \<lparr>medicalProfile = None, qrCodeDataUrl = [], loading = False, trace = [?q]\<rparr>"
    by (simp add: setLoading_def emit_def initial_def)
  have same: "on_mount (e\<lparr>backend := \<lambda>uid. Inr \<lparr>data = None, error = None\<rparr>\<rparr>) (Some u) initial
      = setLoading False (emit ?q initial)"
    by (simp add: on_mount_def fetchMedicalProfile_def fetch_try_def thrown_error_def Let_def)
  have rej: "trace (on_mount (e\<lparr>backend := \<lambda>uid. Inl ex\<rparr>) (Some u) initial) =
      [?q, ConsoleError ''Error fetching medical profile:'' ex,
       Toast \<lparr>title = ''Error'', description = ''Failed to load medical profile'',
              variant = ''destructive''\<rparr>]"
    by (simp add: on_mount_def fetchMedicalProfile_def fetch_try_def Let_def fetch_catch_def
        emit_def setLoading_def initial_def)
  have oth: "trace (on_mount (e\<lparr>backend := \<lambda>uid. Inr \<lparr>data = None,
        error = Some (err\<lparr>code := ''57014''\<rparr>)\<rparr>\<rparr>) (Some u) initial) =
      [?q, ConsoleError ''Error fetching medical profile:'' (Postgrest (err\<lparr>code := ''57014''\<rparr>)),
       Toast \<lparr>title = ''Error'', description = ''Failed to load medical profile'',
              variant = ''destructive''\<rparr>]"
    by (simp add: on_mount_def fetchMedicalProfile_def fetch_try_def thrown_error_def Let_def
        fetch_catch_def emit_def setLoading_def initial_def)
  have view: "render (Some u) (on_mount e (Some u) initial) =
         Element ''div''
           [header_view,
            Element ''main''
              [Element ''div''
                 [Element ''Card''
                    [Element ''CardHeader''
                       [Element ''CardTitle'' [Icon ''User'', Text ''Profile Overview'']],
                     Element ''CardContent'' [email_view (Some u), no_profile_view]],
                  qr_placeholder],
               actions_view initial]]"
    unfolding final
    by (simp add: render_def profile_overview_def qr_view_def summary_view_def
        actions_view_def initial_def)
  have ne1: "on_mount e (Some u) initial \<noteq> on_mount (e\<lparr>backend := \<lambda>uid. Inl ex\<rparr>) (Some u) initial"
  proof
    assume "on_mount e (Some u) initial = on_mount (e\<lparr>backend := \<lambda>uid. Inl ex\<rparr>) (Some u) initial"
    then have "trace (on_mount e (Some u) initial) =
               trace (on_mount (e\<lparr>backend := \<lambda>uid. Inl ex\<rparr>) (Some u) initial)" by simp
    then show False unfolding rej final by simp
  qed
  have ne2: "on_mount e (Some u) initial \<noteq>
      on_mount (e\<lparr>backend := \<lambda>uid. Inr \<lparr>data = None, error = Some (err\<lparr>code := ''57014''\<rparr>)\<rparr>\<rparr>)
        (Some u) initial"
  proof
    assume "on_mount e (Some u) initial =
      on_mount (e\<lparr>backend := \<lambda>uid. Inr \<lparr>data = None, error = Some (err\<lparr>code := ''57014''\<rparr>)\<rparr>\<rparr>)
        (Some u) initial"
    then have "trace (on_mount e (Some u) initial) =
      trace (on_mount (e\<lparr>backend := \<lambda>uid. Inr \<lparr>data = None, error = Some (err\<lparr>code := ''57014''\<rparr>)\<rparr>\<rparr>)
        (Some u) initial)" by simp
    then show False unfolding oth final by simp
  qed
  have quiet: "toasts (trace (on_mount e (Some u) initial)) = []"
    "console_errors (trace (on_mount e (Some u) initial)) = []"
    unfolding final by simp_all
  show ?thesis
    using tr final quiet run same ne1 ne2 view by simp
qed

theorem no_rows_is_expected_absence_witness:
  "on_mount (example_env no_rows png) (Some example_user) initial =
     \<lparr>medicalProfile = None, qrCodeDataUrl = [], loading = False,
      trace = [Query ''medical_profiles'' ''u-1'']\<rparr>
   \<and> toasts (trace (on_mount (example_env no_rows png) (Some example_user) initial)) = []
   \<and> console_errors (trace (on_mount (example_env no_rows png) (Some example_user) initial))
       = []"
proof -
  have b: "backend (example_env no_rows png) (user_id example_user) =
      Inr \<lparr>data = None, error = Some \<lparr>code = ''PGRST116'', message = ''no rows''\<rparr>\<rparr>"
    by (simp add: example_env_def no_rows_def)
  have c: "code \<lparr>code = ''PGRST116'', message = ''no rows''\<rparr> = ''PGRST116''" by simp
  have u: "user_id example_user = ''u-1''" by (simp add: example_user_def)
  from no_rows_is_expected_absence [OF b c, of initial "OtherError []"] show ?thesis
    unfolding u by blast
qed

text \<open>
  C3. When the query rejects, or answers with an error whose code is not \<open>PGRST116\<close>,
  \<open>fetchMedicalProfile\<close> adds to the trace the query, one console error and one toast of
  the destructive variant, in this order, and nothing else: after a mount there is exactly
  one toast, no call of the encoder, and exactly one query.
\<close>

theorem other_errors_notify_once:
  assumes "backend e (user_id u) = Inl ex \<or>
           (\<exists>r err. backend e (user_id u) = Inr r \<and> error r = Some err \<and>
              code err \<noteq> ''PGRST116'' \<and> ex = Postgrest err)"
  shows "trace (fetchMedicalProfile e u st) =
           trace st @ [Query ''medical_profiles'' (user_id u),
             ConsoleError ''Error fetching medical profile:'' ex,
             Toast \<lparr>title = ''Error'', description = ''Failed to load medical profile'',
                    variant = ''destructive''\<rparr>]
     \<and> toasts (trace (on_mount e (Some u) initial)) =
         [\<lparr>title = ''Error'', description = ''Failed to load medical profile'',
           variant = ''destructive''\<rparr>]
     \<and> encoder_calls (trace (on_mount e (Some u) initial)) = []
     \<and> queries (trace (on_mount e (Some u) initial)) = [(''medical_profiles'', user_id u)]"
  by (simp add: fetch_failure_result [OF assms] on_mount_def initial_def)

theorem other_errors_notify_once_witness:
  "toasts (trace (on_mount (example_env server_error png) (Some example_user) initial)) =
     [\<lparr>title = ''Error'', description = ''Failed to load medical profile'',
       variant = ''destructive''\<rparr>]
   \<and> encoder_calls (trace (on_mount (example_env server_error png) (Some example_user) initial)) = []
   \<and> queries (trace (on_mount (example_env server_error png) (Some example_user) initial)) =
       [(''medical_profiles'', ''u-1'')]"
proof -
  have "backend (example_env server_error png) (user_id example_user) =
          Inl (Postgrest \<lparr>code = ''57014'', message = ''timeout''\<rparr>) \<or>
        (\<exists>r err. backend (example_env server_error png) (user_id example_user) = Inr r \<and>
           error r = Some err \<and> code err \<noteq> ''PGRST116'' \<and>
           Postgrest \<lparr>code = ''57014'', message = ''timeout''\<rparr> = Postgrest err)"
    by (simp add: example_env_def server_error_def)
  from other_errors_notify_once [OF this] show ?thesis
    by (simp add: example_user_def)
qed

subsection \<open>The screen without a profile\<close>

text \<open>Where the buttons that lead to the profile form are, when there is no profile.\<close>

lemma create_actions_placement:
  assumes "medicalProfile st = None"
  shows "create_profile_actions (profile_overview usr st) =
           [(NavigateTo ''/profile/edit'', [''Create Medical Profile''])]"
    and "create_profile_actions (actions_view st) =
           [(NavigateTo ''/profile/edit'', [''Create Medical Profile''])]"
    and "create_profile_actions header_view = []"
    and "create_profile_actions (qr_view st) = []"
    and "summary_view st = []"
  using assms
  by (simp_all add: create_profile_actions_def profile_overview_def actions_view_def
      header_view_def qr_view_def qr_placeholder_def summary_view_def no_profile_view_def
      buttons_email_view)

text \<open>
  C4, as amended. When the backend reports no profile, the screen has exactly two buttons
  that navigate to \<open>/profile/edit\<close>, both labelled \<open>Create Medical Profile\<close>: exactly
  one is in the overview card (lines 170-175) and exactly one is in the row of actions
  (lines 218-226). The header and the QR card have none, and there is no summary section.
\<close>

theorem empty_profile_create_buttons:
  assumes "backend e (user_id u) = Inr r" and "thrown_error r = None" and "data r = None"
  shows "create_profile_actions (render (Some u) (on_mount e (Some u) initial)) =
           [(NavigateTo ''/profile/edit'', [''Create Medical Profile'']),
            (NavigateTo ''/profile/edit'', [''Create Medical Profile''])]
     \<and> create_profile_actions (profile_overview (Some u) (on_mount e (Some u) initial)) =
           [(NavigateTo ''/profile/edit'', [''Create Medical Profile''])]
     \<and> create_profile_actions (actions_view (on_mount e (Some u) initial)) =
           [(NavigateTo ''/profile/edit'', [''Create Medical Profile''])]
     \<and> create_profile_actions header_view = []
     \<and> create_profile_actions (qr_view (on_mount e (Some u) initial)) = []
     \<and> summary_view (on_mount e (Some u) initial) = []
     \<and> render (Some u) (on_mount e (Some u) initial) =
           Element ''div''
             [header_view,
              Element ''main''
                [Element ''div''
                   [profile_overview (Some u) (on_mount e (Some u) initial),
                    qr_view (on_mount e (Some u) initial)],
                 actions_view (on_mount e (Some u) initial)]]"
proof -
  let ?s = "on_mount e (Some u) initial"
  have "?s = setLoading False (emit (Query ''medical_profiles'' (user_id u)) initial)"
    using fetch_absent [OF assms] by (simp add: on_mount_def)
  then have n: "medicalProfile ?s = None" and l: "\<not> loading ?s"
    by (simp_all add: setter_fields emit_fields initial_def)
  note pl = create_actions_placement [OF n]
  have two: "create_profile_actions (render (Some u) ?s) =
           [(NavigateTo ''/profile/edit'', [''Create Medical Profile'']),
            (NavigateTo ''/profile/edit'', [''Create Medical Profile''])]"
    using n l by (rule create_actions_empty)
  have tree: "render (Some u) ?s =
           Element ''div''
             [header_view,
              Element ''main''
                [Element ''div'' [profile_overview (Some u) ?s, qr_view ?s],
                 actions_view ?s]]"
    using l pl(5) by (simp add: render_def)
  show ?thesis
    by (intro conjI) (fact two pl tree)+
qed

theorem empty_profile_create_buttons_witness:
  "create_profile_actions (render (Some example_user)
      (on_mount (example_env no_rows png) (Some example_user) initial)) =
     [(NavigateTo ''/profile/edit'', [''Create Medical Profile'']),
      (NavigateTo ''/profile/edit'', [''Create Medical Profile''])]
   \<and> create_profile_actions (profile_overview (Some example_user)
      (on_mount (example_env no_rows png) (Some example_user) initial)) =
     [(NavigateTo ''/profile/edit'', [''Create Medical Profile''])]
   \<and> create_profile_actions (actions_view
      (on_mount (example_env no_rows png) (Some example_user) initial)) =
     [(NavigateTo ''/profile/edit'', [''Create Medical Profile''])]"
proof -
  have b: "backend (example_env no_rows png) (user_id example_user) =
      Inr \<lparr>data = None, error = Some \<lparr>code = ''PGRST116'', message = ''no rows''\<rparr>\<rparr>"
    by (simp add: example_env_def no_rows_def)
  have t: "thrown_error \<lparr>data = None,
      error = Some \<lparr>code = ''PGRST116'', message = ''no rows''\<rparr>\<rparr> = None"
    by (simp add: thrown_error_def)
  have d: "data \<lparr>data = None,
      error = Some \<lparr>code = ''PGRST116'', message = ''no rows''\<rparr>\<rparr> = None"
    by simp
  from empty_profile_create_buttons [OF b t d] show ?thesis by blast
qed

text \<open>
  C4 as stated (exactly one such button) fails for the user of the examples, whose backend
  answers \<open>PGRST116\<close>.
\<close>

theorem one_create_button_counterexample:
  "length (create_profile_actions (render (Some example_user)
      (on_mount (example_env no_rows png) (Some example_user) initial))) \<noteq> 1"
  by (simp add: on_mount_def fetchMedicalProfile_def fetch_try_def thrown_error_def
      example_env_def no_rows_def Let_def setLoading_def emit_def initial_def
      create_actions_empty)

subsection \<open>Mounting without a session\<close>

text \<open>
  After a mount without a user the loading flag is never cleared, so the screen is the
  loading view, which has no button: no click is possible and the state stays as the
  effect left it.
\<close>

lemma loading_view_obs:
  "texts loading_view = [''Loading...'']" "buttons loading_view = []"
  "qr_generators loading_view = []" "summaries loading_view = []"
  by (simp_all add: loading_view_def)

lemma unauthenticated_state:
  "on_mount e None initial =
     \<lparr>medicalProfile = None, qrCodeDataUrl = [], loading = True,
      trace = [Navigate ''/auth'']\<rparr>"
  by (simp add: on_mount_def emit_def initial_def)

lemma unauthenticated_stuck:
  "reachable e None (on_mount e None initial) t \<Longrightarrow> t = on_mount e None initial"
proof (induction rule: reachable.induct)
  case start
  show ?case by simp
next
  case (clicked t h lbl)
  then have "(h, lbl) \<in> set (buttons (render None (on_mount e None initial)))" by simp
  then show ?case
    by (simp add: unauthenticated_state render_def loading_view_obs)
qed

text \<open>
  C6. In every state that can be reached from a mount without a user, the trace is the one
  navigation to \<open>/auth\<close>: no query has been issued and the encoder has not been called. The
  profile is \<open>null\<close> and the screen is the loading view, whose only text is
  \<open>Loading...\<close>: it has no button, no QR card and no profile summary.
\<close>

theorem unauthenticated_mount_redirects:
  assumes "reachable e None (on_mount e None initial) t"
  shows "trace t = [Navigate ''/auth'']
     \<and> queries (trace t) = []
     \<and> encoder_calls (trace t) = []
     \<and> medicalProfile t = None
     \<and> render usr t = loading_view
     \<and> texts (render usr t) = [''Loading...'']
     \<and> buttons (render usr t) = []
     \<and> qr_generators (render usr t) = []
     \<and> summaries (render usr t) = []"
proof -
  have t: "t = \<lparr>medicalProfile = None, qrCodeDataUrl = [], loading = True,
      trace = [Navigate ''/auth'']\<rparr>"
    using unauthenticated_stuck [OF assms] by (simp add: unauthenticated_state)
  then have r: "render usr t = loading_view" by (simp add: render_def)
  show ?thesis unfolding r loading_view_obs using t by simp
qed

theorem unauthenticated_mount_redirects_witness:
  "trace (on_mount (example_env (found example_profile) png) None initial) =
     [Navigate ''/auth'']
   \<and> render None (on_mount (example_env (found example_profile) png) None initial) =
       Element ''div'' [Element ''div'' [Text ''Loading...'']]"
  using unauthenticated_mount_redirects [OF reachable.start, of "example_env (found example_profile) png" None]
  by (simp add: loading_view_def)

subsection \<open>The call of the encoder\<close>

text \<open>Every encoder call of \<open>fetchMedicalProfile\<close> is one made by \<open>generateQRCode\<close>.\<close>

lemma fetch_encoder_calls:
  "set (encoder_calls (trace (fetchMedicalProfile e u st))) \<subseteq>
     set (encoder_calls (trace st)) \<union> {(emergencyUrl (origin e) i, toDataURL_options) | i. True}"
  by (auto simp: fetchMedicalProfile_def fetch_try_def Let_def setter_fields
      generateQRCode_trace fetch_catch_fields emit_fields trace_append
      split: sum.splits option.splits if_splits)

text \<open>
  C8. \<open>generateQRCode\<close> calls the encoder once, with the derived URL and the options
  object of lines 75-82: width 256, margin 2, and the two colours \<open>dark\<close> and \<open>light\<close>.
  The options are a constant: whatever the user, the backend's answer and the profile,
  every encoder call of a mount carries them.
\<close>

theorem encoder_options_are_fixed:
  "encoder_calls (trace (generateQRCode e pid st)) =
     encoder_calls (trace st) @ [(emergencyUrl (origin e) pid, toDataURL_options)]
   \<and> width toDataURL_options = 256
   \<and> margin toDataURL_options = 2
   \<and> color toDataURL_options = \<lparr>dark = ''#dc2626'', light = ''#ffffff''\<rparr>
   \<and> (\<forall>c \<in> set (encoder_calls (trace (on_mount e usr initial))). snd c = toDataURL_options)"
proof -
  have "\<forall>c \<in> set (encoder_calls (trace (on_mount e usr initial))). snd c = toDataURL_options"
  proof (cases usr)
    case None
    then show ?thesis by (simp add: on_mount_def emit_fields initial_def)
  next
    case (Some u)
    show ?thesis
      using fetch_encoder_calls [of e u initial] Some
      by (auto simp: on_mount_def initial_def)
  qed
  then show ?thesis
    by (simp add: generateQRCode_trace trace_append toDataURL_options_def split: sum.splits)
qed

theorem encoder_options_are_fixed_witness:
  "encoder_calls (trace (on_mount (example_env (found example_profile_full) png)
      (Some example_user) initial)) =
     [(''https://qrupay.example/emergency/abc123'',
       \<lparr>width = 256, margin = 2, color = \<lparr>dark = ''#dc2626'', light = ''#ffffff''\<rparr>\<rparr>)]"
proof -
  let ?e = "example_env (found example_profile_full) png"
  let ?st = "setMedicalProfile example_profile_full
               (emit (Query ''medical_profiles'' (user_id example_user)) initial)"
  have run: "on_mount ?e (Some example_user) initial =
      setLoading False (generateQRCode ?e ''abc123'' ?st)"
    by (simp add: on_mount_def fetchMedicalProfile_def fetch_try_def thrown_error_def
        example_env_def found_def example_profile_full_def truthy_def Let_def)
  have "encoder_calls (trace ?st) = []"
    by (simp add: setter_fields emit_fields initial_def)
  with encoder_options_are_fixed [of ?e "''abc123''" ?st None] show ?thesis
    unfolding run setter_fields
    by (simp add: emergencyUrl_def example_env_def toDataURL_options_def)
qed

text \<open>
  C9. Two calls of \<open>generateQRCode\<close> with the same id, one after the other, hand the
  encoder the same text twice, although the first call may have changed the state; and
  two calls in any two states and environments with the same origin hand it the same text.
\<close>

theorem derivation_is_deterministic:
  "map fst (encoder_calls (trace (generateQRCode e pid (generateQRCode e pid st)))) =
     map fst (encoder_calls (trace st)) @
       [emergencyUrl (origin e) pid, emergencyUrl (origin e) pid]
   \<and> (origin e1 = origin e2 \<longrightarrow>
        last (map fst (encoder_calls (trace (generateQRCode e1 pid st1)))) =
        last (map fst (encoder_calls (trace (generateQRCode e2 pid st2)))))"
  by (simp add: generateQRCode_trace trace_append split: sum.splits)

theorem derivation_is_deterministic_witness:
  "map fst (encoder_calls (trace
      (generateQRCode (example_env no_rows png) ''abc123''
        (generateQRCode (example_env no_rows png) ''abc123'' initial)))) =
     [''https://qrupay.example/emergency/abc123'', ''https://qrupay.example/emergency/abc123'']"
  using derivation_is_deterministic [of "example_env no_rows png" "''abc123''" initial
      "example_env no_rows png" "example_env no_rows png" initial initial]
  by (simp add: initial_def emergencyUrl_def example_env_def)

subsection \<open>The screen with a profile\<close>

lemma texts_email_view:
  "qr_generators (email_view usr) = []" "summaries (email_view usr) = []"
  by (auto simp: email_view_def text_child_def split: option.splits)

lemma same_but_blood_group:
  assumes "p1\<lparr>blood_group := None\<rparr> = p2\<lparr>blood_group := None\<rparr>"
  shows "id' p1 = id' p2"
    and "emergency_contact_name p1 = emergency_contact_name p2"
    and "emergency_contact_phone p1 = emergency_contact_phone p2"
proof -
  have "id' (p1\<lparr>blood_group := None\<rparr>) = id' (p2\<lparr>blood_group := None\<rparr>)"
    using assms by (rule arg_cong)
  then show "id' p1 = id' p2" by simp
  have "emergency_contact_name (p1\<lparr>blood_group := None\<rparr>) =
        emergency_contact_name (p2\<lparr>blood_group := None\<rparr>)"
    using assms by (rule arg_cong)
  then show "emergency_contact_name p1 = emergency_contact_name p2" by simp
  have "emergency_contact_phone (p1\<lparr>blood_group := None\<rparr>) =
        emergency_contact_phone (p2\<lparr>blood_group := None\<rparr>)"
    using assms by (rule arg_cong)
  then show "emergency_contact_phone p1 = emergency_contact_phone p2" by simp
qed

lemma render_loaded:
  "medicalProfile st = Some p \<Longrightarrow> \<not> loading st \<Longrightarrow>
   render usr st =
     Element ''div''
       [header_view,
        Element ''main''
          [Element ''div''
             [Element ''Card''
                [Element ''CardHeader''
                   [Element ''CardTitle'' [Icon ''User'', Text ''Profile Overview'']],
                 Element ''CardContent''
                   [email_view usr,
                    Element ''div'' (emergency_contact_view p # blood_group_view p)]],
              qr_view st],
           Element ''div''
             [Element ''h2'' [Icon ''Heart'', Text ''Medical Profile Summary''],
              MedicalProfileSummary p],
           actions_view st]]"
  by (simp add: render_def profile_overview_def summary_view_def)

lemma blood_group_view_obs:
  "buttons n = []" "qr_generators n = []" "summaries n = []" if "n \<in> set (blood_group_view p)"
  using that by (auto simp: blood_group_view_def split: option.splits if_splits)

lemma concat_map_nil: "(\<And>x. x \<in> set xs \<Longrightarrow> f x = []) \<Longrightarrow> concat (map f xs) = []"
  by (induction xs) simp_all

lemma blood_group_view_silent:
  "concat (map buttons (blood_group_view p)) = []"
  "concat (map qr_generators (blood_group_view p)) = []"
  "concat (map summaries (blood_group_view p)) = []"
  by (simp_all add: concat_map_nil blood_group_view_obs)

lemma mount_with_profile_result:
  "mount_with_profile e u p =
     (if truthy (id' p)
      then generateQRCode e (id' p)
             \<lparr>medicalProfile = Some p, qrCodeDataUrl = [], loading = False,
              trace = [Query ''medical_profiles'' (user_id u)]\<rparr>
      else \<lparr>medicalProfile = Some p, qrCodeDataUrl = [], loading = False,
            trace = [Query ''medical_profiles'' (user_id u)]\<rparr>)"
  by (simp add: mount_with_profile_def on_mount_def fetchMedicalProfile_def fetch_try_def
      thrown_error_def Let_def generateQRCode_def emit_def setMedicalProfile_def
      setLoading_def setQrCodeDataUrl_def initial_def split: sum.splits)

lemma mount_with_profile_fields:
  "medicalProfile (mount_with_profile e u p) = Some p"
  "loading (mount_with_profile e u p) = False"
  by (simp_all add: mount_with_profile_result generateQRCode_fields)

lemma mount_with_profile_swap:
  "id' p1 = id' p2 \<Longrightarrow>
   mount_with_profile e u p1 = (mount_with_profile e u p2)\<lparr>medicalProfile := Some p1\<rparr>"
  by (simp add: mount_with_profile_result generateQRCode_def Let_def emit_def
      setQrCodeDataUrl_def split: sum.splits)

text \<open>
  C5. Take two profiles that are the same but for \<open>blood_group\<close> and mount the page once
  with each. The two final states differ in the stored profile only: the traces, and so the
  calls of the encoder and the QR payload, are the same, and so is \<open>qrCodeDataUrl\<close>. On the
  two screens the emergency contact, the QR card and the row of actions are the same trees;
  the buttons and the QR card's props are the same; the texts are the same before and after
  the blood group block. The child component \<open>MedicalProfileSummary\<close> is not part of this
  file: the page hands it the whole profile, so the two props are the same but for
  \<open>blood_group\<close>.
\<close>

theorem blood_group_noninterference:
  assumes "p1\<lparr>blood_group := None\<rparr> = p2\<lparr>blood_group := None\<rparr>"
  shows "mount_with_profile e u p1 = (mount_with_profile e u p2)\<lparr>medicalProfile := Some p1\<rparr>
     \<and> encoder_calls (trace (mount_with_profile e u p1)) =
         encoder_calls (trace (mount_with_profile e u p2))
     \<and> qrCodeDataUrl (mount_with_profile e u p1) = qrCodeDataUrl (mount_with_profile e u p2)
     \<and> emergencyUrl (origin e) (id' p1) = emergencyUrl (origin e) (id' p2)
     \<and> emergency_contact_view p1 = emergency_contact_view p2
     \<and> qr_view (mount_with_profile e u p1) = qr_view (mount_with_profile e u p2)
     \<and> actions_view (mount_with_profile e u p1) = actions_view (mount_with_profile e u p2)
     \<and> buttons (render usr (mount_with_profile e u p1)) =
         buttons (render usr (mount_with_profile e u p2))
     \<and> qr_generators (render usr (mount_with_profile e u p1)) =
         qr_generators (render usr (mount_with_profile e u p2))
     \<and> map (\<lambda>q. q\<lparr>blood_group := None\<rparr>) (summaries (render usr (mount_with_profile e u p1))) =
         map (\<lambda>q. q\<lparr>blood_group := None\<rparr>) (summaries (render usr (mount_with_profile e u p2)))
     \<and> (\<exists>pre post.
          texts (render usr (mount_with_profile e u p1)) =
            pre @ concat (map texts (blood_group_view p1)) @ post \<and>
          texts (render usr (mount_with_profile e u p2)) =
            pre @ concat (map texts (blood_group_view p2)) @ post)"
proof -
  note eq = same_but_blood_group [OF assms]
  let ?s1 = "mount_with_profile e u p1" and ?s2 = "mount_with_profile e u p2"
  have sw: "?s1 = ?s2\<lparr>medicalProfile := Some p1\<rparr>"
    using eq(1) by (rule mount_with_profile_swap)
  have tr: "trace ?s1 = trace ?s2" and du: "qrCodeDataUrl ?s1 = qrCodeDataUrl ?s2"
    by (subst sw, simp)+
  have ec: "emergency_contact_view p1 = emergency_contact_view p2"
    by (simp add: emergency_contact_view_def eq)
  have qr: "qr_view ?s1 = qr_view ?s2"
    by (simp add: qr_view_def mount_with_profile_fields eq)
  have ac: "actions_view ?s1 = actions_view ?s2"
    by (simp add: actions_view_def mount_with_profile_fields eq)
  have r1: "render usr ?s1 =
     Element ''div''
       [header_view,
        Element ''main''
          [Element ''div''
             [Element ''Card''
                [Element ''CardHeader''
                   [Element ''CardTitle'' [Icon ''User'', Text ''Profile Overview'']],
                 Element ''CardContent''
                   [email_view usr,
                    Element ''div'' (emergency_contact_view p2 # blood_group_view p1)]],
              qr_view ?s2],
           Element ''div''
             [Element ''h2'' [Icon ''Heart'', Text ''Medical Profile Summary''],
              MedicalProfileSummary p1],
           actions_view ?s2]]"
    using render_loaded [of ?s1 p1 usr] ec qr ac by (simp add: mount_with_profile_fields)
  have r2: "render usr ?s2 =
     Element ''div''
       [header_view,
        Element ''main''
          [Element ''div''
             [Element ''Card''
                [Element ''CardHeader''
                   [Element ''CardTitle'' [Icon ''User'', Text ''Profile Overview'']],
                 Element ''CardContent''
                   [email_view usr,
                    Element ''div'' (emergency_contact_view p2 # blood_group_view p2)]],
              qr_view ?s2],
           Element ''div''
             [Element ''h2'' [Icon ''Heart'', Text ''Medical Profile Summary''],
              MedicalProfileSummary p2],
           actions_view ?s2]]"
    using render_loaded [of ?s2 p2 usr] by (simp add: mount_with_profile_fields)
  have bt: "buttons (render usr ?s1) = buttons (render usr ?s2)"
    unfolding r1 r2 by (simp add: blood_group_view_silent)
  have qg: "qr_generators (render usr ?s1) = qr_generators (render usr ?s2)"
    unfolding r1 r2 by (simp add: blood_group_view_silent)
  have sm: "map (\<lambda>q. q\<lparr>blood_group := None\<rparr>) (summaries (render usr ?s1)) =
            map (\<lambda>q. q\<lparr>blood_group := None\<rparr>) (summaries (render usr ?s2))"
    unfolding r1 r2 using assms by (simp add: blood_group_view_silent)
  let ?pre = "texts header_view @ [''Profile Overview''] @ texts (email_view usr)
                @ texts (emergency_contact_view p2)"
  let ?post = "texts (qr_view ?s2) @ [''Medical Profile Summary''] @ texts (actions_view ?s2)"
  have "texts (render usr ?s1) = ?pre @ concat (map texts (blood_group_view p1)) @ ?post"
    and "texts (render usr ?s2) = ?pre @ concat (map texts (blood_group_view p2)) @ ?post"
    unfolding r1 r2 by simp_all
  then have tx: "\<exists>pre post.
          texts (render usr ?s1) = pre @ concat (map texts (blood_group_view p1)) @ post \<and>
          texts (render usr ?s2) = pre @ concat (map texts (blood_group_view p2)) @ post"
    by blast
  have url: "emergencyUrl (origin e) (id' p1) = emergencyUrl (origin e) (id' p2)"
    by (simp add: eq)
  from sw tr du url ec qr ac bt qg sm tx show ?thesis
    by simp
qed

theorem blood_group_noninterference_witness:
  "example_profile_full \<noteq> example_profile_full\<lparr>blood_group := None\<rparr>
   \<and> encoder_calls (trace (mount_with_profile (example_env no_rows png) example_user
       example_profile_full)) =
     encoder_calls (trace (mount_with_profile (example_env no_rows png) example_user
       (example_profile_full\<lparr>blood_group := None\<rparr>)))
   \<and> buttons (render (Some example_user) (mount_with_profile (example_env no_rows png)
       example_user example_profile_full)) =
     buttons (render (Some example_user) (mount_with_profile (example_env no_rows png)
       example_user (example_profile_full\<lparr>blood_group := None\<rparr>)))"
proof -
  have d: "blood_group example_profile_full \<noteq>
           blood_group (example_profile_full\<lparr>blood_group := None\<rparr>)"
    by (simp add: example_profile_full_def)
  have n: "example_profile_full \<noteq> example_profile_full\<lparr>blood_group := None\<rparr>"
  proof
    assume "example_profile_full = example_profile_full\<lparr>blood_group := None\<rparr>"
    then have "blood_group example_profile_full =
               blood_group (example_profile_full\<lparr>blood_group := None\<rparr>)"
      by (rule arg_cong)
    with d show False by contradiction
  qed
  have "example_profile_full\<lparr>blood_group := None\<rparr> =
        example_profile_full\<lparr>blood_group := None\<rparr>\<lparr>blood_group := None\<rparr>"
    by simp
  from blood_group_noninterference [OF this] n show ?thesis by blast
qed

subsection \<open>A failing encoder\<close>



subsection \<open>A failing fetch\<close>

text \<open>
  C10. When the query rejects, or answers with an error whose code is not \<open>PGRST116\<close>,
  \<open>fetchMedicalProfile\<close> leaves the profile and \<open>qrCodeDataUrl\<close> as they were; after a
  mount they are \<open>null\<close> and the empty string. The final state is that of the run whose
  backend answers \<open>PGRST116\<close>, with the console error and the toast added to the trace, and
  the screen is the same: the two buttons to create a profile and the placeholder in place
  of the QR card.
\<close>

theorem fetch_failure_leaves_display_state:
  assumes "backend e (user_id u) = Inl ex \<or>
           (\<exists>r err. backend e (user_id u) = Inr r \<and> error r = Some err \<and>
              code err \<noteq> ''PGRST116'' \<and> ex = Postgrest err)"
  shows "medicalProfile (fetchMedicalProfile e u st) = medicalProfile st
     \<and> qrCodeDataUrl (fetchMedicalProfile e u st) = qrCodeDataUrl st
     \<and> medicalProfile (on_mount e (Some u) initial) = None
     \<and> qrCodeDataUrl (on_mount e (Some u) initial) = []
     \<and> on_mount e (Some u) initial =
         (on_mount (e\<lparr>backend := \<lambda>uid. no_rows\<rparr>) (Some u) initial)
           \<lparr>trace := trace (on_mount (e\<lparr>backend := \<lambda>uid. no_rows\<rparr>) (Some u) initial) @
              [ConsoleError ''Error fetching medical profile:'' ex,
               Toast \<lparr>title = ''Error'', description = ''Failed to load medical profile'',
                      variant = ''destructive''\<rparr>]\<rparr>
     \<and> render usr (on_mount e (Some u) initial) =
         render usr (on_mount (e\<lparr>backend := \<lambda>uid. no_rows\<rparr>) (Some u) initial)
     \<and> create_profile_actions (render usr (on_mount e (Some u) initial)) =
         [(NavigateTo ''/profile/edit'', [''Create Medical Profile'']),
          (NavigateTo ''/profile/edit'', [''Create Medical Profile''])]
     \<and> qr_view (on_mount e (Some u) initial) = qr_placeholder"
proof -
  note f = fetch_failure_result [OF assms]
  have n: "on_mount (e\<lparr>backend := \<lambda>uid. no_rows\<rparr>) (Some u) initial =
      \<lparr>medicalProfile = None, qrCodeDataUrl = [], loading = False,
       trace = [Query ''medical_profiles'' (user_id u)]\<rparr>"
    by (simp add: on_mount_def fetchMedicalProfile_def fetch_try_def thrown_error_def
        no_rows_def Let_def setLoading_def emit_def initial_def)
  have m: "on_mount e (Some u) initial =
      \<lparr>medicalProfile = None, qrCodeDataUrl = [], loading = False,
       trace = [Query ''medical_profiles'' (user_id u),
         ConsoleError ''Error fetching medical profile:'' ex,
         Toast \<lparr>title = ''Error'', description = ''Failed to load medical profile'',
                variant = ''destructive''\<rparr>]\<rparr>"
    by (simp add: on_mount_def f initial_def)
  have r: "render usr (on_mount e (Some u) initial) =
           render usr (on_mount (e\<lparr>backend := \<lambda>uid. no_rows\<rparr>) (Some u) initial)"
    unfolding m n by (rule render_cong) simp_all
  have c: "create_profile_actions (render usr (on_mount e (Some u) initial)) =
         [(NavigateTo ''/profile/edit'', [''Create Medical Profile'']),
          (NavigateTo ''/profile/edit'', [''Create Medical Profile''])]"
    unfolding m by (rule create_actions_empty) simp_all
  have q: "qr_view (on_mount e (Some u) initial) = qr_placeholder"
    unfolding m by (simp add: qr_view_def)
  have a1: "medicalProfile (fetchMedicalProfile e u st) = medicalProfile st"
    and a2: "qrCodeDataUrl (fetchMedicalProfile e u st) = qrCodeDataUrl st"
    by (simp_all add: f)
  have a3: "medicalProfile (on_mount e (Some u) initial) = None"
    and a4: "qrCodeDataUrl (on_mount e (Some u) initial) = []"
    by (simp_all add: m)
  have a5: "on_mount e (Some u) initial =
         (on_mount (e\<lparr>backend := \<lambda>uid. no_rows\<rparr>) (Some u) initial)
           \<lparr>trace := trace (on_mount (e\<lparr>backend := \<lambda>uid. no_rows\<rparr>) (Some u) initial) @
              [ConsoleError ''Error fetching medical profile:'' ex,
               Toast \<lparr>title = ''Error'', description = ''Failed to load medical profile'',
                      variant = ''destructive''\<rparr>]\<rparr>"
    unfolding m n by simp
  show ?thesis
    by (intro conjI) (fact a1 a2 a3 a4 a5 r c q)+
qed

theorem fetch_failure_leaves_display_state_witness:
  "on_mount (example_env server_error png) (Some example_user) initial =
     \<lparr>medicalProfile = None, qrCodeDataUrl = [], loading = False,
      trace = [Query ''medical_profiles'' ''u-1'',
        ConsoleError ''Error fetching medical profile:''
          (Postgrest \<lparr>code = ''57014'', message = ''timeout''\<rparr>),
        Toast \<lparr>title = ''Error'', description = ''Failed to load medical profile'',
               variant = ''destructive''\<rparr>]\<rparr>
   \<and> render (Some example_user)
         (on_mount (example_env server_error png) (Some example_user) initial) =
       render (Some example_user)
         (on_mount (example_env no_rows png) (Some example_user) initial)"
proof -
  let ?e = "example_env server_error png"
  have a: "backend ?e (user_id example_user) =
          Inl (Postgrest \<lparr>code = ''57014'', message = ''timeout''\<rparr>) \<or>
        (\<exists>r err. backend ?e (user_id example_user) = Inr r \<and>
           error r = Some err \<and> code err \<noteq> ''PGRST116'' \<and>
           Postgrest \<lparr>code = ''57014'', message = ''timeout''\<rparr> = Postgrest err)"
    by (simp add: example_env_def server_error_def)
  have b: "?e\<lparr>backend := \<lambda>uid. no_rows\<rparr> = example_env no_rows png"
    by (simp add: example_env_def)
  have n: "on_mount (example_env no_rows png) (Some example_user) initial =
      \<lparr>medicalProfile = None, qrCodeDataUrl = [], loading = False,
       trace = [Query ''medical_profiles'' (user_id example_user)]\<rparr>"
    by (simp add: on_mount_def fetchMedicalProfile_def fetch_try_def thrown_error_def
        example_env_def no_rows_def Let_def setLoading_def emit_def initial_def)
  note t = fetch_failure_leaves_display_state [OF a, of initial "Some example_user",
      unfolded b]
  from t have "on_mount ?e (Some example_user) initial =
      (on_mount (example_env no_rows png) (Some example_user) initial)
        \<lparr>trace := trace (on_mount (example_env no_rows png) (Some example_user) initial) @
           [ConsoleError ''Error fetching medical profile:''
              (Postgrest \<lparr>code = ''57014'', message = ''timeout''\<rparr>),
            Toast \<lparr>title = ''Error'', description = ''Failed to load medical profile'',
                   variant = ''destructive''\<rparr>]\<rparr>"
    by blast
  then have s: "on_mount ?e (Some example_user) initial =
     \<lparr>medicalProfile = None, qrCodeDataUrl = [], loading = False,
      trace = [Query ''medical_profiles'' ''u-1'',
        ConsoleError ''Error fetching medical profile:''
          (Postgrest \<lparr>code = ''57014'', message = ''timeout''\<rparr>),
        Toast \<lparr>title = ''Error'', description = ''Failed to load medical profile'',
               variant = ''destructive''\<rparr>]\<rparr>"
    unfolding n by (simp add: example_user_def)
  from t have "render (Some example_user) (on_mount ?e (Some example_user) initial) =
       render (Some example_user)
         (on_mount (example_env no_rows png) (Some example_user) initial)"
    by blast
  with s show ?thesis by blast
qed

end
